theory Spec2Isabelle
  imports Complex_Main
begin

section \<open>Strings as the analyzer and the optimizer use them\<close>

text \<open>
  A TypeScript string is a sequence of 16-bit code units. The model covers the strings
  all of whose code units are below 256 (ASCII and the Latin-1 supplement): such a string
  is a HOL \<open>string\<close>, a \<open>char\<close> is one code unit, and \<open>length\<close> is the source's
  \<open>.length\<close>. On these strings the whitespace class and the case mappings below are
  JavaScript's own.
\<close>

text \<open>
  The class of \<open>\s\<close>, of \<open>trim()\<close> and of the whitespace that \<open>parseInt\<close> skips:
  tab, line feed, vertical tab, form feed, carriage return, space and no-break space.
\<close>

definition isSpace :: "char \<Rightarrow> bool" where
  "isSpace c =
     (c = CHR '' '' \<or> c = CHR 0x09 \<or> c = CHR 0x0A \<or> c = CHR 0x0B \<or> c = CHR 0x0C \<or>
      c = CHR 0x0D \<or> c = CHR 0xA0)"

text \<open>
  The letters that \<open>toLowerCase\<close> moves: A-Z and the Latin-1 capitals 0xC0-0xDE
  (the multiplication sign 0xD7 is no letter). Each moves up by 32.
\<close>

definition isUpperLetter :: "char \<Rightarrow> bool" where
  "isUpperLetter c =
     (let n = (of_char c :: nat)
      in (65 \<le> n \<and> n \<le> 90) \<or> (192 \<le> n \<and> n \<le> 222 \<and> n \<noteq> 215))"

text \<open>
  The letters that \<open>toUpperCase\<close> moves: a-z, the micro sign 0xB5 and the Latin-1
  small letters 0xDF-0xFF (the division sign 0xF7 is no letter).
\<close>

definition isLowerLetter :: "char \<Rightarrow> bool" where
  "isLowerLetter c =
     (let n = (of_char c :: nat)
      in (97 \<le> n \<and> n \<le> 122) \<or> n = 181 \<or> (223 \<le> n \<and> n \<le> 255 \<and> n \<noteq> 247))"

definition toLowerChar :: "char \<Rightarrow> char" where
  "toLowerChar c = (if isUpperLetter c then char_of ((of_char c :: nat) + 32) else c)"

text \<open>\<open>s.toLowerCase()\<close>.\<close>

definition toLowerCase :: "string \<Rightarrow> string" where
  "toLowerCase s = map toLowerChar s"

text \<open>
  \<open>s.toUpperCase()\<close> can leave the Latin-1 range and can grow: the micro sign becomes
  the Greek capital mu (U+039C), the y with diaeresis becomes U+0178 and the sharp s
  becomes two letters S. Its result is therefore given as a list of code units;
  \<open>units\<close> is the list of code units of a string of the model.
\<close>

definition units :: "string \<Rightarrow> nat list" where
  "units s = map of_char s"

definition toUpperUnits :: "char \<Rightarrow> nat list" where
  "toUpperUnits c =
     (let n = (of_char c :: nat)
      in if (97 \<le> n \<and> n \<le> 122) \<or> (224 \<le> n \<and> n \<le> 254 \<and> n \<noteq> 247) then [n - 32]
         else if n = 181 then [924]
         else if n = 223 then [83, 83]
         else if n = 255 then [376]
         else [n])"

definition toUpperCase :: "string \<Rightarrow> nat list" where
  "toUpperCase s = concat (map toUpperUnits s)"

text \<open>\<open>s.trim()\<close>: the whitespace at both ends is dropped.\<close>

definition trim :: "string \<Rightarrow> string" where
  "trim s = rev (dropWhile isSpace (rev (dropWhile isSpace s)))"

text \<open>\<open>s.includes(k)\<close>: \<open>k\<close> occurs in \<open>s\<close> as a contiguous substring.\<close>

fun startsWith :: "string \<Rightarrow> string \<Rightarrow> bool" where
  "startsWith s [] = True"
| "startsWith [] (k # ks) = False"
| "startsWith (c # cs) (k # ks) = (c = k \<and> startsWith cs ks)"

fun includes_str :: "string \<Rightarrow> string \<Rightarrow> bool" where
  "includes_str [] k = (k = [])"
| "includes_str (c # cs) k = (startsWith (c # cs) k \<or> includes_str cs k)"

text \<open>
  \<open>s.split(re)\<close> for a regular expression \<open>[class]+\<close>: the string is cut at every
  maximal run of characters of the class. A run at the start or at the end of the string
  leaves an empty piece there, and the empty string splits into one empty piece.
  \<open>split(/\s+/)\<close> is \<open>split_runs isSpace\<close>.
\<close>

function split_runs :: "(char \<Rightarrow> bool) \<Rightarrow> string \<Rightarrow> string list" where
  "split_runs P [] = [[]]"
| "split_runs P (c # cs) =
     (if P c then [] # split_runs P (dropWhile P cs)
      else (case split_runs P cs of w # ws \<Rightarrow> (c # w) # ws | [] \<Rightarrow> [[c]]))"
  by pat_completeness auto
termination
  by (relation "measure (\<lambda>(P, s). length s)") (auto simp: length_dropWhile_le le_imp_less_Suc)

text \<open>\<open>s.split(c)\<close> for a one-character separator.\<close>

fun split_on :: "char \<Rightarrow> string \<Rightarrow> string list" where
  "split_on sep [] = [[]]"
| "split_on sep (c # cs) =
     (if c = sep then [] # split_on sep cs
      else (case split_on sep cs of w # ws \<Rightarrow> (c # w) # ws | [] \<Rightarrow> [[c]]))"

text \<open>\<open>xs.join(sep)\<close>.\<close>

fun join :: "string \<Rightarrow> string list \<Rightarrow> string" where
  "join sep [] = []"
| "join sep [x] = x"
| "join sep (x # y # ys) = x @ sep @ join sep (y # ys)"

section \<open>Numbers\<close>

text \<open>
  A \<open>number\<close> is an IEEE 754 double. It is modelled by the rational it denotes, and
  \<open>double\<close> rounds the exact result of an operation to the nearest double, a tie to the
  even significand of 53 bits. The exponent range is not modelled (no infinity, no
  subnormal numbers). Lengths, counts and sums of integers are far below \<open>2^53\<close> and are
  exact; they are written without the rounding. A decimal literal of the source, such as
  \<open>0.15\<close>, is the double nearest to it.
\<close>

function bitLength :: "int \<Rightarrow> int" where
  "bitLength a = (if a \<le> 0 then 0 else bitLength (a div 2) + 1)"
  by pat_completeness auto
termination
  by (relation "measure nat") auto

declare bitLength.simps [simp del]

definition pow2 :: "int \<Rightarrow> rat" where
  "pow2 e = (if 0 \<le> e then 2 ^ nat e else 1 / 2 ^ nat (- e))"

text \<open>The nearest integer, a half going to the even neighbour.\<close>

definition roundEven :: "rat \<Rightarrow> int" where
  "roundEven q =
     (let n = \<lfloor>q\<rfloor>; f = q - of_int n
      in if f < 1 / 2 then n else if 1 / 2 < f then n + 1 else if even n then n else n + 1)"

text \<open>The binary exponent of a number other than 0: \<open>2^e \<le> |x| < 2^(e+1)\<close>.\<close>

definition expo :: "rat \<Rightarrow> int" where
  "expo x =
     (let p = fst (quotient_of \<bar>x\<bar>); q = snd (quotient_of \<bar>x\<bar>);
          d = bitLength p - bitLength q
      in if pow2 d \<le> \<bar>x\<bar> then d else d - 1)"

definition double :: "rat \<Rightarrow> rat" where
  "double x =
     (if x = 0 then 0
      else let e = expo x - 52 in of_int (roundEven (x / pow2 e)) * pow2 e)"

text \<open>\<open>Math.round\<close>: the nearest integer, a half rounded up.\<close>

definition js_round :: "rat \<Rightarrow> rat" where
  "js_round x = of_int \<lfloor>x + 1 / 2\<rfloor>"

section \<open>The data model (types/scene.ts)\<close>

record AnalysisBlock =
  score :: rat
  issues :: "string list"
  suggestions :: "string list"

datatype Readiness = ProductionReady | Good | NeedsWork | Poor

record Overall =
  overall_score :: rat
  readiness :: Readiness

record PromptAnalysis =
  image :: AnalysisBlock
  video :: AnalysisBlock
  voice :: AnalysisBlock
  overall :: Overall

record Scene =
  scene_id :: string
  scene_order :: int
  image_prompt :: string
  narration_script :: string
  analysis :: "PromptAnalysis option"

section \<open>The analyzer (utils/promptAnalyzer.ts)\<close>

definition TOPIC_KEYWORDS :: "(string \<times> string list) list" where
  "TOPIC_KEYWORDS =
     [(''educational'', [''learn'', ''explain'', ''understand'', ''concept'', ''theory'',
                         ''principle'', ''definition'']),
      (''visual'', [''visualize'', ''illustrate'', ''display'', ''show'', ''demonstrate'',
                    ''present'', ''reveal'']),
      (''motion'', [''move'', ''transition'', ''flow'', ''slide'', ''zoom'', ''pan'', ''rotate'',
                    ''animate'']),
      (''engagement'', [''interactive'', ''engaging'', ''compelling'', ''captivating'',
                        ''dynamic'', ''vibrant''])]"

definition MOTION_VERBS :: "string list" where
  "MOTION_VERBS =
     [''moves'', ''flows'', ''transitions'', ''slides'', ''zooms'', ''pans'', ''rotates'',
      ''animates'', ''shifts'', ''transforms'', ''morphs'', ''evolves'', ''emerges'',
      ''unfolds'', ''reveals'']"

definition positiveWords :: "string list" where
  "positiveWords = [''good'', ''great'', ''excellent'', ''amazing'', ''wonderful'', ''perfect'',
                    ''best'', ''beautiful'', ''clear'', ''easy'']"

definition negativeWords :: "string list" where
  "negativeWords = [''bad'', ''terrible'', ''awful'', ''horrible'', ''wrong'', ''difficult'',
                    ''hard'', ''confusing'', ''unclear'']"

text \<open>The \<open>forEach\<close> of \<open>calculateSentiment\<close>, one word at a time.\<close>

definition sentimentStep :: "int \<Rightarrow> string \<Rightarrow> int" where
  "sentimentStep sc word =
     (let s1 = (if word \<in> set positiveWords then sc + 1 else sc)
      in if word \<in> set negativeWords then s1 - 1 else s1)"

definition calculateSentiment :: "string \<Rightarrow> int" where
  "calculateSentiment text = foldl sentimentStep 0 (split_runs isSpace (toLowerCase text))"

definition isSentenceEnd :: "char \<Rightarrow> bool" where
  "isSentenceEnd c = (c = CHR ''.'' \<or> c = CHR ''!'' \<or> c = CHR ''?'')"

definition isVowel :: "char \<Rightarrow> bool" where
  "isVowel c = (c \<in> set ''aeiouAEIOU'')"

text \<open>
  The three counts of \<open>calculateFleschKincaid\<close>. The sentence count and the word count
  filter the pieces of their splits; the syllable count reduces over every piece of
  \<open>text.split(/\s+/)\<close>, as the source does.
\<close>

definition fkSentences :: "string \<Rightarrow> nat" where
  "fkSentences text = length (filter (\<lambda>s. length (trim s) > 0) (split_runs isSentenceEnd text))"

definition fkWords :: "string \<Rightarrow> nat" where
  "fkWords text = length (filter (\<lambda>w. length w > 0) (split_runs isSpace text))"

definition fkSyllables :: "string \<Rightarrow> nat" where
  "fkSyllables text =
     foldl (\<lambda>count word. count + max 1 (length (filter isVowel word))) 0 (split_runs isSpace text)"

definition calculateFleschKincaid :: "string \<Rightarrow> rat" where
  "calculateFleschKincaid text =
     (let sentences = fkSentences text; words = fkWords text; syllables = fkSyllables text
      in if sentences = 0 \<or> words = 0 then 0
         else double (double (double (206835 / 1000)
                                - double (double (1015 / 1000)
                                          * double (of_nat words / of_nat sentences)))
                      - double (double (846 / 10) * double (of_nat syllables / of_nat words))))"

definition detectProperNouns :: "string \<Rightarrow> string list" where
  "detectProperNouns text =
     filter (\<lambda>word. length word > 2 \<and>
                    units [hd word] = toUpperCase [hd word] \<and>
                    drop 1 word = toLowerCase (drop 1 word) \<and>
                    word \<notin> set [''The'', ''A'', ''An'', ''This'', ''That''])
            (split_runs isSpace text)"

definition scoreTopicRelevance :: "string \<Rightarrow> rat" where
  "scoreTopicRelevance text =
     (let lowerText = toLowerCase text;
          sc = foldl (\<lambda>sc keywords.
                  foldl (\<lambda>sc keyword. if includes_str lowerText keyword then sc + 10 else sc)
                        sc keywords)
                 0 (map snd TOPIC_KEYWORDS)
      in min 100 sc)"

text \<open>
  A scorer keeps three locals: \<open>score\<close>, \<open>issues\<close> and \<open>suggestions\<close>. They are the
  fields of the block under construction; \<open>flag\<close> is a rule that pushes an issue and a
  suggestion and changes the score, \<open>adjust\<close> a rule that changes the score only.
\<close>

definition flag :: "string \<Rightarrow> string \<Rightarrow> rat \<Rightarrow> AnalysisBlock \<Rightarrow> AnalysisBlock" where
  "flag i s d b =
     \<lparr>score = double (score b + d), issues = issues b @ [i], suggestions = suggestions b @ [s]\<rparr>"

definition adjust :: "rat \<Rightarrow> AnalysisBlock \<Rightarrow> AnalysisBlock" where
  "adjust d b = b\<lparr>score := double (score b + d)\<rparr>"

definition baseBlock :: AnalysisBlock where
  "baseBlock = \<lparr>score = 50, issues = [], suggestions = []\<rparr>"

text \<open>The last statement of each scorer: the score is rounded and clamped.\<close>

definition finish :: "AnalysisBlock \<Rightarrow> AnalysisBlock" where
  "finish b = b\<lparr>score := max 0 (min 100 (js_round (score b)))\<rparr>"

definition dq :: char where
  "dq = CHR 0x22"

text \<open>\<open>analyzeImage\<close> up to its return statement: the raw additive total and the lists.\<close>

definition analyzeImage_total :: "string \<Rightarrow> AnalysisBlock" where
  "analyzeImage_total prompt =
     (let b1 = (if length prompt < 50
                then flag ''Image prompt too short'' ''Add more visual descriptors and details''
                       (- 20) baseBlock
                else if length prompt > 200 then adjust 10 baseBlock else baseBlock);
          visualKeywords = [''color'', ''style'', ''lighting'', ''composition'', ''detailed'',
                            ''realistic'', ''artistic''];
          hasVisualKeywords =
            list_ex (\<lambda>keyword. includes_str (toLowerCase prompt) keyword) visualKeywords;
          b2 = (if \<not> hasVisualKeywords
                then flag ''Missing visual style descriptors''
                       ''Specify art style, colors, or lighting'' (- 15) b1
                else adjust 15 b1);
          topicScore = scoreTopicRelevance prompt;
          b3 = adjust (double (topicScore * double (2 / 10))) b2;
          properNouns = detectProperNouns prompt
      in if length properNouns > 3
         then flag ''Many proper nouns may need pronunciation guide''
                ''Consider simplifying technical terms'' (- 10) b3
         else b3)"

definition analyzeImage :: "string \<Rightarrow> AnalysisBlock" where
  "analyzeImage prompt = finish (analyzeImage_total prompt)"

definition analyzeVideo_total :: "string \<Rightarrow> AnalysisBlock" where
  "analyzeVideo_total prompt =
     (let hasMotion = list_ex (\<lambda>verb. includes_str (toLowerCase prompt) verb) MOTION_VERBS;
          b1 = (if \<not> hasMotion
                then flag ''No motion described''
                       (''Add motion verbs like '' @ [dq] @ ''flows'' @ [dq] @ '', '' @ [dq]
                        @ ''transitions'' @ [dq] @ '', '' @ [dq] @ ''zooms'' @ [dq])
                       (- 25) baseBlock
                else adjust 20 baseBlock);
          durationKeywords = [''second'', ''duration'', ''time'', ''quick'', ''slow'', ''smooth''];
          hasDuration =
            list_ex (\<lambda>keyword. includes_str (toLowerCase prompt) keyword) durationKeywords;
          b2 = (if \<not> hasDuration
                then flag ''Duration unclear''
                       (''Specify timing like '' @ [dq] @ ''smooth 4-second transition'' @ [dq])
                       (- 15) b1
                else adjust 15 b1);
          engagementWords = the (map_of TOPIC_KEYWORDS ''engagement'');
          hasEngagement =
            list_ex (\<lambda>word. includes_str (toLowerCase prompt) word) engagementWords;
          b3 = (if hasEngagement then adjust 10 b2 else b2)
      in if length prompt < 30
         then flag ''Video description too brief''
                ''Describe the visual sequence in more detail'' (- 15) b3
         else b3)"

definition analyzeVideo :: "string \<Rightarrow> AnalysisBlock" where
  "analyzeVideo prompt = finish (analyzeVideo_total prompt)"

definition analyzeVoice_total :: "string \<Rightarrow> AnalysisBlock" where
  "analyzeVoice_total script =
     (let b1 = (if length script < 50
                then flag ''Narration too short''
                       ''Expand explanation for better understanding'' (- 25) baseBlock
                else if length script > 500
                then flag ''Narration might be too long for video segment''
                       ''Consider breaking into shorter segments'' (- 10) baseBlock
                else adjust 15 baseBlock);
          readability = calculateFleschKincaid script;
          b2 = (if readability < 60
                then flag ''Complex language detected''
                       ''Simplify vocabulary and sentence structure'' (- 20) b1
                else if readability > 80 then adjust 15 b1 else b1);
          sentiment = calculateSentiment script;
          b3 = (if sentiment < - 2
                then flag ''Negative tone detected''
                       ''Use more positive, encouraging language'' (- 15) b2
                else if sentiment > 2 then adjust 10 b2 else b2);
          educationalScore = scoreTopicRelevance script;
          b4 = adjust (double (educationalScore * double (15 / 100))) b3;
          properNouns = detectProperNouns script
      in if length properNouns > 5
         then flag ''Many technical terms may need pronunciation guide''
                ''Add phonetic spelling for complex terms'' (- 10) b4
         else b4)"

definition analyzeVoice :: "string \<Rightarrow> AnalysisBlock" where
  "analyzeVoice script = finish (analyzeVoice_total script)"

definition analyzePrompt :: "string \<Rightarrow> string \<Rightarrow> PromptAnalysis" where
  "analyzePrompt imagePrompt script =
     (let imageAnalysis = analyzeImage imagePrompt;
          videoAnalysis = analyzeVideo imagePrompt;
          voiceAnalysis = analyzeVoice script;
          overallScore =
            js_round (double ((score imageAnalysis + score videoAnalysis + score voiceAnalysis) / 3));
          rd = (if overallScore \<ge> 80 then ProductionReady
                else if overallScore \<ge> 60 then Good
                else if overallScore \<ge> 40 then NeedsWork
                else Poor)
      in \<lparr>image = imageAnalysis, video = videoAnalysis, voice = voiceAnalysis,
          overall = \<lparr>overall_score = overallScore, readiness = rd\<rparr>\<rparr>)"

section \<open>The optimizer (utils/promptOptimizer.ts)\<close>

text \<open>\<open>s.replace(/\.$/, '')\<close>: a full stop at the very end of the string is removed.\<close>

definition stripFinalDot :: "string \<Rightarrow> string" where
  "stripFinalDot s = (if s \<noteq> [] \<and> last s = CHR ''.'' then butlast s else s)"

definition optimizeImagePrompt :: "string \<Rightarrow> string" where
  "optimizeImagePrompt prompt =
     (if trim prompt = [] then []
      else
        let o1 = (if \<not> includes_str (toLowerCase prompt) ''educational''
                  then ''Educational content: '' @ prompt else prompt);
            visualWords = [''show'', ''visualize'', ''illustrate'', ''display''];
            o2 = (if \<not> list_ex (\<lambda>word. includes_str (toLowerCase o1) word) visualWords
                  then stripFinalDot o1 @ ''. Visualize this with clear, professional imagery.''
                  else o1);
            styleKeywords = [''detailed'', ''realistic'', ''professional'', ''clean'', ''modern''];
            hasStyle = list_ex (\<lambda>kw. includes_str (toLowerCase o2) kw) styleKeywords;
            o3 = (if \<not> hasStyle
                  then o2 @ '' Use detailed, professional style with clean modern design.''
                  else o2)
        in trim o3)"

definition optimizeVideoPrompt :: "string \<Rightarrow> string" where
  "optimizeVideoPrompt prompt =
     (if trim prompt = [] then []
      else
        let o1 = (if \<not> includes_str (toLowerCase prompt) ''scene'' \<and>
                     \<not> includes_str (toLowerCase prompt) ''sequence''
                  then prompt @ '' Structure as engaging scenes with smooth transitions.''
                  else prompt);
            motionWords = [''movement'', ''animation'', ''transition'', ''flow'', ''dynamic'',
                           ''moving''];
            o2 = (if \<not> list_ex (\<lambda>word. includes_str (toLowerCase o1) word) motionWords
                  then o1 @ '' Include smooth transitions and dynamic movement.''
                  else o1);
            o3 = (if \<not> includes_str (toLowerCase o2) ''brief'' \<and>
                     \<not> includes_str (toLowerCase o2) ''quick'' \<and>
                     \<not> includes_str (toLowerCase o2) ''short''
                  then o2 @ '' Keep scenes brief for optimal video generation (4-5 seconds each).''
                  else o2)
        in trim o3)"

definition educationalTone :: "string list" where
  "educationalTone = [''learn'', ''understand'', ''discover'', ''explore'', ''knowledge'']"

definition optimizeVoiceScript :: "string \<Rightarrow> string" where
  "optimizeVoiceScript script =
     (if trim script = [] then []
      else
        let o1 = (if \<not> includes_str (toLowerCase script) ''explain'' \<and>
                     \<not> includes_str (toLowerCase script) ''narrat''
                  then script @ '' Include clear narration that explains key concepts.''
                  else script);
            o2 = (if \<not> list_ex (\<lambda>word. includes_str (toLowerCase o1) word) educationalTone
                  then o1 @ '' This helps you understand and learn the concept better.''
                  else o1);
            o3 = (if length script < 50
                  then o2 @ '' Provide a clear, detailed explanation of the key ideas and concepts.''
                  else o2)
        in trim o3)"

section \<open>The scene collection (the component in types/scene.ts)\<close>

text \<open>
  The component keeps the collection in the state \<open>scenes\<close>. An operation is modelled as
  a function of the collection that returns the toast it shows and the new collection; the
  undo history, the autosave and the download are left out.
\<close>

datatype Toast = CannotRemove | SceneRemoved

definition renumber :: "Scene list \<Rightarrow> Scene list" where
  "renumber filtered =
     map (\<lambda>(index, scene). scene\<lparr>scene_order := int index + 1\<rparr>) (enumerate 0 filtered)"

definition removeScene :: "string \<Rightarrow> Scene list \<Rightarrow> Toast \<times> Scene list" where
  "removeScene sceneId scenes =
     (if length scenes \<le> 1 then (CannotRemove, scenes)
      else (SceneRemoved, renumber (filter (\<lambda>s. scene_id s \<noteq> sceneId) scenes)))"

text \<open>
  An integer as the template string and \<open>toString()\<close> print it: its decimal digits.
  That is the print of a number below \<open>10^21\<close> in magnitude; larger numbers print in
  exponent notation, which is not modelled. The orders and the ids of a collection
  (\<open>Date.now()\<close> is a count of milliseconds) are far below that bound.
\<close>

definition digitChar :: "nat \<Rightarrow> char" where
  "digitChar d = char_of (48 + d)"

function showNat :: "nat \<Rightarrow> string" where
  "showNat n = (if n < 10 then [digitChar n] else showNat (n div 10) @ [digitChar (n mod 10)])"
  by pat_completeness auto
termination
  by (relation "measure id") auto

declare showNat.simps [simp del]

definition showInt :: "int \<Rightarrow> string" where
  "showInt i = (if i < 0 then CHR ''-'' # showNat (nat (- i)) else showNat (nat i))"

text \<open>\<open>s.replace(/"/g, '""')\<close>: every double quote is doubled.\<close>

definition doubleQuotes :: "string \<Rightarrow> string" where
  "doubleQuotes s = concat (map (\<lambda>c. if c = dq then [dq, dq] else [c]) s)"

definition csvHeaders :: "string list" where
  "csvHeaders = [''scene_order'', ''image_prompt'', ''narration_script'']"

definition exportLine :: "Scene \<Rightarrow> string" where
  "exportLine scene =
     join '','' [showInt (scene_order scene),
                [dq] @ doubleQuotes (image_prompt scene) @ [dq],
                [dq] @ doubleQuotes (narration_script scene) @ [dq]]"

text \<open>\<open>exportToCSV\<close>: the text \<open>csvContent\<close> that is put into the downloaded file.\<close>

definition exportToCSV :: "Scene list \<Rightarrow> string" where
  "exportToCSV scenes = join [CHR 0x0A] (join '','' csvHeaders # map exportLine scenes)"

text \<open>\<open>v.replace(/^"|"$/g, '')\<close>: one double quote at the start and one at the end go.\<close>

definition stripQuotes :: "string \<Rightarrow> string" where
  "stripQuotes v =
     (let v1 = (case v of c # cs \<Rightarrow> if c = dq then cs else v | [] \<Rightarrow> [])
      in if v1 \<noteq> [] \<and> last v1 = dq then butlast v1 else v1)"

text \<open>
  \<open>parseInt(s)\<close>: leading whitespace and a sign are skipped, a prefix \<open>0x\<close> selects
  radix 16, and the longest run of digits is read; \<open>None\<close> is \<open>NaN\<close>. The result is
  the double nearest to the integer read, which is again an integer.
\<close>

definition digitVal :: "char \<Rightarrow> nat" where
  "digitVal c =
     (let n = (of_char c :: nat)
      in if 48 \<le> n \<and> n \<le> 57 then n - 48
         else if 97 \<le> n \<and> n \<le> 122 then n - 87
         else if 65 \<le> n \<and> n \<le> 90 then n - 55
         else 36)"

definition parseInt :: "string \<Rightarrow> int option" where
  "parseInt s =
     (let s1 = dropWhile isSpace s;
          neg = (s1 \<noteq> [] \<and> hd s1 = CHR ''-'');
          s2 = (if s1 \<noteq> [] \<and> (hd s1 = CHR ''-'' \<or> hd s1 = CHR ''+'') then tl s1 else s1);
          hex = (take 2 s2 = ''0x'' \<or> take 2 s2 = ''0X'');
          radix = (if hex then 16 else 10);
          s3 = (if hex then drop 2 s2 else s2);
          ds = takeWhile (\<lambda>c. digitVal c < radix) s3;
          n = foldl (\<lambda>a c. a * int radix + int (digitVal c)) 0 ds;
          m = \<lfloor>double (of_int n)\<rfloor>
      in if ds = [] then None else Some (if neg then - m else m))"

datatype ImportError = NoHeaderLine | InvalidCSVFormat

text \<open>\<open>values[k] || ''\<close>: a missing field reads as the empty string.\<close>

definition fieldAt :: "string list \<Rightarrow> nat \<Rightarrow> string" where
  "fieldAt values k = (if k < length values then values ! k else [])"

text \<open>The body of the import loop for line \<open>i\<close>; \<open>now\<close> is \<open>Date.now()\<close>.\<close>

definition importLine :: "nat \<Rightarrow> nat \<Rightarrow> string \<Rightarrow> Scene" where
  "importLine now i line =
     (let values = map (\<lambda>v. stripQuotes (trim v)) (split_on CHR '','' line)
      in \<lparr>scene_id = showNat (now + i),
          scene_order = (case parseInt (fieldAt values 0) of
                           None \<Rightarrow> int i
                         | Some n \<Rightarrow> if n = 0 then int i else n),
          image_prompt = fieldAt values 1,
          narration_script = fieldAt values 2,
          analysis = None\<rparr>)"

fun importLines :: "nat \<Rightarrow> nat \<Rightarrow> string list \<Rightarrow> Scene list" where
  "importLines now i [] = []"
| "importLines now i (line # rest) = importLine now i line # importLines now (Suc i) rest"

text \<open>
  \<open>handleCSVImport\<close> from the text of the file on: the new collection, or the error
  that the \<open>catch\<close> turns into the toast "Import Failed". With no line at all,
  \<open>lines[0].split\<close> throws. The three header tests are the operands of the source's
  \<open>||\<close>, tried from left to right.
\<close>

definition csvLines :: "string \<Rightarrow> string list" where
  "csvLines csv = filter (\<lambda>line. trim line \<noteq> []) (split_on (CHR 0x0A) csv)"

definition handleCSVImport :: "nat \<Rightarrow> string \<Rightarrow> ImportError + Scene list" where
  "handleCSVImport now csv =
     (case csvLines csv of
        [] \<Rightarrow> Inl NoHeaderLine
      | header # rows \<Rightarrow>
          let headers = map trim (split_on CHR '','' header)
          in if ''scene_order'' \<notin> set headers then Inl InvalidCSVFormat
             else if ''image_prompt'' \<notin> set headers then Inl InvalidCSVFormat
             else if ''narration_script'' \<notin> set headers then Inl InvalidCSVFormat
             else Inr (importLines now 1 rows))"

definition getOverallAnalysis :: "Scene list \<Rightarrow> Overall option" where
  "getOverallAnalysis scenes =
     (let analyzedScenes = filter (\<lambda>s. analysis s \<noteq> None) scenes
      in if length analyzedScenes = 0 then None
         else
           let totalScore =
                 foldl (\<lambda>sum scene. sum + (case analysis scene of
                                               Some a \<Rightarrow> overall_score (overall a)
                                             | None \<Rightarrow> 0))
                       0 analyzedScenes;
               averageScore = js_round (double (totalScore / of_nat (length analyzedScenes)));
               rd = (if averageScore \<ge> 80 then ProductionReady
                     else if averageScore \<ge> 60 then Good
                     else if averageScore \<ge> 40 then NeedsWork
                     else Poor)
           in Some \<lparr>overall_score = averageScore, readiness = rd\<rparr>)"

section \<open>The specification's wording, for comparison with the code\<close>

text \<open>The readiness tiers as the specification lists them, by inclusive lower bound.\<close>

definition readinessStep :: "rat \<Rightarrow> Readiness" where
  "readinessStep s =
     (if s \<ge> 80 then ProductionReady
      else if s \<ge> 60 then Good
      else if s \<ge> 40 then NeedsWork
      else Poor)"

text \<open>
  The syllable count in the specification's words: the sum, over the words (the
  non-empty whitespace-delimited tokens), of the number of vowels, at least one each.
\<close>

definition specSyllables :: "string \<Rightarrow> nat" where
  "specSyllables text =
     sum_list (map (\<lambda>word. max 1 (length (filter isVowel word)))
                   (filter (\<lambda>w. length w > 0) (split_runs isSpace text)))"

text \<open>The readability formula, computed as the code computes it, over that count.\<close>

definition specReadability :: "string \<Rightarrow> rat" where
  "specReadability text =
     (if fkSentences text = 0 \<or> fkWords text = 0 then 0
      else double (double (double (206835 / 1000)
                             - double (double (1015 / 1000)
                                       * double (of_nat (fkWords text) / of_nat (fkSentences text))))
                   - double (double (846 / 10)
                             * double (of_nat (specSyllables text) / of_nat (fkWords text)))))"

text \<open>
  The proper nouns in the specification's words: the first character is an uppercase
  letter and each remaining character is a lowercase letter.
\<close>

definition specProperNouns :: "string \<Rightarrow> string list" where
  "specProperNouns text =
     filter (\<lambda>word. length word > 2 \<and> isUpperLetter (hd word) \<and>
                    list_all isLowerLetter (tl word) \<and>
                    word \<notin> set [''The'', ''A'', ''An'', ''This'', ''That''])
            (split_runs isSpace text)"

text \<open>What the interchange format carries of a scene.\<close>

definition triple :: "Scene \<Rightarrow> int \<times> string \<times> string" where
  "triple s = (scene_order s, image_prompt s, narration_script s)"

section \<open>Predicates of the proofs\<close>

text \<open>Rounding the mean of a sum \<open>n\<close> of three scores as a double changes nothing.\<close>

definition js_round_agrees :: "int \<Rightarrow> bool" where
  "js_round_agrees n = (js_round (double (of_int n / 3)) = js_round (of_int n / 3))"

text \<open>A text without a comma, a double quote or a line break.\<close>

definition safeText :: "string \<Rightarrow> bool" where
  "safeText t = (CHR '','' \<notin> set t \<and> dq \<notin> set t \<and> CHR 0x0A \<notin> set t)"

definition isDigit :: "char \<Rightarrow> bool" where
  "isDigit c = (c \<in> set ''0123456789'')"

definition isNumberChar :: "char \<Rightarrow> bool" where
  "isNumberChar c = (isDigit c \<or> c = CHR ''-'')"

text \<open>A scene with such texts and an order other than 0 that is a safe integer.\<close>

definition roundTrips :: "Scene \<Rightarrow> bool" where
  "roundTrips s =
     (safeText (image_prompt s) \<and> safeText (narration_script s) \<and> scene_order s \<noteq> 0 \<and>
      \<bar>scene_order s\<bar> < 2 ^ 53)"

section \<open>Sample inputs\<close>

definition voiceKept :: string where
  "voiceKept = ''Today we explain and learn how cells divide in the human body.''"

definition voiceGrown :: string where
  "voiceGrown = ''Today we will learn how cells divide in the human body.''"

definition sceneComma :: Scene where
  "sceneComma = \<lparr>scene_id = ''1'', scene_order = 1, image_prompt = ''Sun, moon'',
                 narration_script = ''Stars'', analysis = None\<rparr>"

definition sceneQuote :: Scene where
  "sceneQuote = \<lparr>scene_id = ''1'', scene_order = 1,
                 image_prompt = ''say '' @ [dq] @ ''hi'' @ [dq],
                 narration_script = ''Stars'', analysis = None\<rparr>"

definition sceneBreak :: Scene where
  "sceneBreak = \<lparr>scene_id = ''1'', scene_order = 1,
                 image_prompt = ''Sun'' @ [CHR 0x0A] @ ''moon'',
                 narration_script = ''Stars'', analysis = None\<rparr>"

definition scenePlain :: Scene where
  "scenePlain = \<lparr>scene_id = ''1'', scene_order = 1, image_prompt = ''Sun and moon'',
                 narration_script = ''Stars'', analysis = None\<rparr>"

definition sceneEmpty :: Scene where
  "sceneEmpty = \<lparr>scene_id = ''2'', scene_order = 2, image_prompt = [],
                 narration_script = [], analysis = None\<rparr>"

definition sceneTwinA :: Scene where
  "sceneTwinA = \<lparr>scene_id = ''7'', scene_order = 1, image_prompt = ''Sun'',
                 narration_script = ''Stars'', analysis = None\<rparr>"

definition sceneTwinB :: Scene where
  "sceneTwinB = \<lparr>scene_id = ''7'', scene_order = 2, image_prompt = ''Moon'',
                 narration_script = ''Night'', analysis = None\<rparr>"

definition blankText :: string where
  "blankText = [CHR '' '', CHR 0x09, CHR 0x0A, CHR 0xA0]"

definition csvEmptyRow :: string where
  "csvEmptyRow = ''scene_order,image_prompt,narration_script'' @ [CHR 0x0A] @ ''1,,''"

section \<open>Rounding and clamping\<close>

lemma js_round_Ints: "js_round x \<in> \<int>"
  by (simp add: js_round_def)

lemma js_round_of_int: "js_round (of_int k) = of_int k"
proof -
  have "\<lfloor>(of_int k :: rat) + 1 / 2\<rfloor> = k" by linarith
  then show ?thesis by (simp add: js_round_def)
qed

lemma js_round_mono: "x \<le> y \<Longrightarrow> js_round x \<le> js_round y"
  by (simp add: js_round_def floor_mono)

text \<open>Rounding first and clamping second is clamping first and rounding second.\<close>

lemma js_round_clamp: "max 0 (min 100 (js_round x)) = js_round (max 0 (min 100 x))"
proof -
  have r0: "js_round 0 = 0" using js_round_of_int [of 0] by simp
  have r100: "js_round 100 = 100" using js_round_of_int [of 100] by simp
  consider "x < 0" | "0 \<le> x" "x \<le> 100" | "100 < x" by linarith
  then show ?thesis
  proof cases
    case 1
    then have "js_round x \<le> 0" using js_round_mono [of x 0] r0 by simp
    with 1 show ?thesis by (simp add: r0 max_def min_def)
  next
    case 2
    then have "0 \<le> js_round x" "js_round x \<le> 100"
      using js_round_mono [of 0 x] js_round_mono [of x 100] r0 r100 by simp_all
    with 2 show ?thesis by (simp add: max_def min_def)
  next
    case 3
    then have "100 \<le> js_round x" using js_round_mono [of 100 x] r100 by simp
    with 3 show ?thesis by (simp add: r100 max_def min_def)
  qed
qed

lemma finish_score_Ints: "score (finish b) \<in> \<int>"
  by (simp add: finish_def max_def min_def js_round_Ints)

lemma finish_score_range: "0 \<le> score (finish b) \<and> score (finish b) \<le> 100"
  by (simp add: finish_def)

lemma finish_score_clamp: "score (finish b) = js_round (max 0 (min 100 (score b)))"
  by (simp add: finish_def js_round_clamp)

lemma js_round_mean_range:
  assumes "0 \<le> a" "a \<le> 100" "0 \<le> b" "b \<le> 100" "0 \<le> c" "c \<le> 100"
  shows "0 \<le> js_round ((a + b + c) / 3) \<and> js_round ((a + b + c) / 3) \<le> 100"
proof -
  have r0: "js_round 0 = 0" using js_round_of_int [of 0] by simp
  have r100: "js_round 100 = 100" using js_round_of_int [of 100] by simp
  have "0 \<le> (a + b + c) / 3" "(a + b + c) / 3 \<le> 100" using assms by simp_all
  then show ?thesis
    using js_round_mono [of 0 "(a + b + c) / 3"] js_round_mono [of "(a + b + c) / 3" 100] r0 r100
    by simp
qed

section \<open>Doubles\<close>

lemma bitLength_le: "a < 2 ^ k \<Longrightarrow> bitLength a \<le> int k"
proof (induction k arbitrary: a)
  case 0
  then have "a \<le> 0" by simp
  then show ?case by (subst bitLength.simps) simp
next
  case (Suc k)
  show ?case
  proof (cases "a \<le> 0")
    case True
    then show ?thesis by (subst bitLength.simps) simp
  next
    case False
    from Suc.prems have "a div 2 < 2 ^ k" by simp
    then have "bitLength (a div 2) \<le> int k" by (rule Suc.IH)
    with False show ?thesis by (subst bitLength.simps) simp
  qed
qed

lemma bitLength_one: "bitLength 1 = 1"
  by code_simp

lemma roundEven_of_int: "roundEven (of_int m) = m"
  by (simp add: roundEven_def)

text \<open>An integer below \<open>2^53\<close> in magnitude is a double.\<close>

lemma quotient_of_of_int: "quotient_of (rat_of_int m) = (m, 1)"
  by (simp add: of_int_rat quotient_of_Fract)

lemma double_of_int:
  assumes "\<bar>n\<bar> < 2 ^ 53"
  shows "double (of_int n) = of_int n"
proof (cases "n = 0")
  case True
  then show ?thesis by (simp add: double_def)
next
  case False
  have q: "quotient_of \<bar>rat_of_int n\<bar> = (\<bar>n\<bar>, 1)"
    by (simp only: of_int_abs [symmetric] quotient_of_of_int)
  from assms have b: "bitLength \<bar>n\<bar> \<le> 53" using bitLength_le [of "\<bar>n\<bar>" 53] by simp
  have "expo (rat_of_int n) \<le> bitLength \<bar>n\<bar> - 1"
    unfolding expo_def q Let_def fst_conv snd_conv bitLength_one by simp
  with b have le: "expo (rat_of_int n) \<le> 52" by linarith
  define k where "k = nat (52 - expo (rat_of_int n))"
  from le have k: "expo (rat_of_int n) - 52 = - int k" by (simp add: k_def)
  have p: "pow2 (- int k) = 1 / 2 ^ k"
    by (cases "k = 0") (simp_all add: pow2_def)
  have "rat_of_int n / pow2 (- int k) = rat_of_int (n * 2 ^ k)"
    by (simp add: p)
  then have r: "roundEven (rat_of_int n / pow2 (- int k)) = n * 2 ^ k"
    by (simp only: roundEven_of_int)
  have "double (rat_of_int n) = rat_of_int (n * 2 ^ k) * pow2 (- int k)"
    using False unfolding double_def Let_def k r by simp
  then show ?thesis by (simp add: p)
qed

text \<open>
  The quotient of a sum of three scores by 3 is an integer or lies a third away from
  one; its double rounds to the same integer. The sums are 0 to 300.
\<close>

lemma mean_table_1: "list_all js_round_agrees [0..50]"
  by code_simp

lemma mean_table_2: "list_all js_round_agrees [51..100]"
  by code_simp

lemma mean_table_3: "list_all js_round_agrees [101..150]"
  by code_simp

lemma mean_table_4: "list_all js_round_agrees [151..200]"
  by code_simp

lemma mean_table_5: "list_all js_round_agrees [201..250]"
  by code_simp

lemma mean_table_6: "list_all js_round_agrees [251..300]"
  by code_simp

lemma mean_table:
  assumes "0 \<le> n" "n \<le> 300"
  shows "js_round (double (of_int n / 3)) = js_round (of_int n / 3)"
proof -
  from assms have "n \<in> {0..50} \<or> n \<in> {51..100} \<or> n \<in> {101..150} \<or> n \<in> {151..200} \<or>
      n \<in> {201..250} \<or> n \<in> {251..300}"
    by auto
  then have "js_round_agrees n"
    using mean_table_1 mean_table_2 mean_table_3 mean_table_4 mean_table_5 mean_table_6
    unfolding list_all_iff set_upto by blast
  then show ?thesis by (simp only: js_round_agrees_def)
qed

lemma mean_round:
  assumes "a \<in> \<int>" "0 \<le> a" "a \<le> 100" "b \<in> \<int>" "0 \<le> b" "b \<le> 100"
    and "c \<in> \<int>" "0 \<le> c" "c \<le> 100"
  shows "js_round (double ((a + b + c) / 3)) = js_round ((a + b + c) / 3)"
proof -
  from assms(1,4,7) obtain i j k where e: "a = of_int i" "b = of_int j" "c = of_int k"
    by (auto elim!: Ints_cases)
  from assms(2,3,5,6,8,9) have r: "0 \<le> i + j + k" "i + j + k \<le> 300"
    unfolding e by simp_all
  have s: "a + b + c = of_int (i + j + k)" by (simp add: e)
  show ?thesis unfolding s by (rule mean_table [OF r])
qed

section \<open>The analysis result\<close>

lemma image_analyzePrompt: "image (analyzePrompt i n) = analyzeImage i"
  by (simp add: analyzePrompt_def Let_def)

lemma video_analyzePrompt: "video (analyzePrompt i n) = analyzeVideo i"
  by (simp add: analyzePrompt_def Let_def)

lemma voice_analyzePrompt: "voice (analyzePrompt i n) = analyzeVoice n"
  by (simp add: analyzePrompt_def Let_def)

lemma overall_score_analyzePrompt:
  "overall_score (overall (analyzePrompt i n)) =
     js_round (double ((score (analyzeImage i) + score (analyzeVideo i)
                        + score (analyzeVoice n)) / 3))"
  by (simp add: analyzePrompt_def Let_def)

lemma analyzeImage_score: "score (analyzeImage t) \<in> \<int>"
    "0 \<le> score (analyzeImage t)" "score (analyzeImage t) \<le> 100"
  unfolding analyzeImage_def using finish_score_range [of "analyzeImage_total t"]
  by (simp_all only: finish_score_Ints)

lemma analyzeVideo_score: "score (analyzeVideo t) \<in> \<int>"
    "0 \<le> score (analyzeVideo t)" "score (analyzeVideo t) \<le> 100"
  unfolding analyzeVideo_def using finish_score_range [of "analyzeVideo_total t"]
  by (simp_all only: finish_score_Ints)

lemma analyzeVoice_score: "score (analyzeVoice t) \<in> \<int>"
    "0 \<le> score (analyzeVoice t)" "score (analyzeVoice t) \<le> 100"
  unfolding analyzeVoice_def using finish_score_range [of "analyzeVoice_total t"]
  by (simp_all only: finish_score_Ints)

text \<open>The double quotient of the source rounds as the exact mean does.\<close>

lemma overall_score_mean:
  "overall_score (overall (analyzePrompt i n)) =
     js_round ((score (analyzeImage i) + score (analyzeVideo i) + score (analyzeVoice n)) / 3)"
  unfolding overall_score_analyzePrompt
  by (rule mean_round) (rule analyzeImage_score analyzeVideo_score analyzeVoice_score)+

text \<open>
  C1. For every pair of input strings, the image, video and voice scores and the overall
  score of \<open>analyzePrompt\<close> are integers between 0 and 100, and each dimension score
  is \<open>round(max(0, min(100, total)))\<close> of the raw additive total of its scorer.
\<close>

theorem analyze_scores_in_range:
  "score (image (analyzePrompt imageText narrationText)) \<in> \<int> \<and>
   0 \<le> score (image (analyzePrompt imageText narrationText)) \<and>
   score (image (analyzePrompt imageText narrationText)) \<le> 100 \<and>
   score (image (analyzePrompt imageText narrationText)) =
     js_round (max 0 (min 100 (score (analyzeImage_total imageText)))) \<and>
   score (video (analyzePrompt imageText narrationText)) \<in> \<int> \<and>
   0 \<le> score (video (analyzePrompt imageText narrationText)) \<and>
   score (video (analyzePrompt imageText narrationText)) \<le> 100 \<and>
   score (video (analyzePrompt imageText narrationText)) =
     js_round (max 0 (min 100 (score (analyzeVideo_total imageText)))) \<and>
   score (voice (analyzePrompt imageText narrationText)) \<in> \<int> \<and>
   0 \<le> score (voice (analyzePrompt imageText narrationText)) \<and>
   score (voice (analyzePrompt imageText narrationText)) \<le> 100 \<and>
   score (voice (analyzePrompt imageText narrationText)) =
     js_round (max 0 (min 100 (score (analyzeVoice_total narrationText)))) \<and>
   overall_score (overall (analyzePrompt imageText narrationText)) \<in> \<int> \<and>
   0 \<le> overall_score (overall (analyzePrompt imageText narrationText)) \<and>
   overall_score (overall (analyzePrompt imageText narrationText)) \<le> 100"
proof -
  have im: "score (analyzeImage imageText) \<in> \<int>"
      "0 \<le> score (analyzeImage imageText)" "score (analyzeImage imageText) \<le> 100"
      "score (analyzeImage imageText) =
         js_round (max 0 (min 100 (score (analyzeImage_total imageText))))"
    unfolding analyzeImage_def
    using finish_score_range [of "analyzeImage_total imageText"]
    by (simp_all only: finish_score_Ints finish_score_clamp [symmetric])
  have vi: "score (analyzeVideo imageText) \<in> \<int>"
      "0 \<le> score (analyzeVideo imageText)" "score (analyzeVideo imageText) \<le> 100"
      "score (analyzeVideo imageText) =
         js_round (max 0 (min 100 (score (analyzeVideo_total imageText))))"
    unfolding analyzeVideo_def
    using finish_score_range [of "analyzeVideo_total imageText"]
    by (simp_all only: finish_score_Ints finish_score_clamp [symmetric])
  have vo: "score (analyzeVoice narrationText) \<in> \<int>"
      "0 \<le> score (analyzeVoice narrationText)" "score (analyzeVoice narrationText) \<le> 100"
      "score (analyzeVoice narrationText) =
         js_round (max 0 (min 100 (score (analyzeVoice_total narrationText))))"
    unfolding analyzeVoice_def
    using finish_score_range [of "analyzeVoice_total narrationText"]
    by (simp_all only: finish_score_Ints finish_score_clamp [symmetric])
  have ov: "overall_score (overall (analyzePrompt imageText narrationText)) \<in> \<int>"
    by (simp add: overall_score_analyzePrompt js_round_Ints)
  have ovr: "0 \<le> overall_score (overall (analyzePrompt imageText narrationText)) \<and>
             overall_score (overall (analyzePrompt imageText narrationText)) \<le> 100"
    unfolding overall_score_mean
    by (rule js_round_mean_range) (rule im vi vo)+
  show ?thesis
    unfolding image_analyzePrompt video_analyzePrompt voice_analyzePrompt
    using im vi vo ov ovr by blast
qed

text \<open>
  C2. For every pair of input strings, the overall score is the rounded mean of the
  three dimension scores, and the readiness is the step function of the overall score
  with inclusive lower bounds 80, 60 and 40; the step function sends 80 to Production
  Ready, 79 and 60 to Good, 59 and 40 to Needs Work and 39 to Poor.
\<close>

theorem analyze_overall_readiness:
  "overall_score (overall (analyzePrompt imageText narrationText)) =
     js_round ((score (image (analyzePrompt imageText narrationText))
                + score (video (analyzePrompt imageText narrationText))
                + score (voice (analyzePrompt imageText narrationText))) / 3) \<and>
   readiness (overall (analyzePrompt imageText narrationText)) =
     readinessStep (overall_score (overall (analyzePrompt imageText narrationText))) \<and>
   readinessStep 80 = ProductionReady \<and> readinessStep 79 = Good \<and>
   readinessStep 60 = Good \<and> readinessStep 59 = NeedsWork \<and>
   readinessStep 40 = NeedsWork \<and> readinessStep 39 = Poor"
proof -
  have m: "overall_score (overall (analyzePrompt imageText narrationText)) =
     js_round ((score (image (analyzePrompt imageText narrationText))
                + score (video (analyzePrompt imageText narrationText))
                + score (voice (analyzePrompt imageText narrationText))) / 3)"
    unfolding image_analyzePrompt video_analyzePrompt voice_analyzePrompt
    by (rule overall_score_mean)
  have r: "readiness (overall (analyzePrompt imageText narrationText)) =
     readinessStep (overall_score (overall (analyzePrompt imageText narrationText)))"
    by (simp add: analyzePrompt_def Let_def readinessStep_def)
  have b: "readinessStep 80 = ProductionReady \<and> readinessStep 79 = Good \<and>
     readinessStep 60 = Good \<and> readinessStep 59 = NeedsWork \<and>
     readinessStep 40 = NeedsWork \<and> readinessStep 39 = Poor"
    by (simp add: readinessStep_def)
  from m r b show ?thesis by (intro conjI) simp_all
qed

section \<open>The optimizer on blank text and on text that needs nothing\<close>

lemma isSpace_toLowerChar: "isSpace c \<Longrightarrow> toLowerChar c = c"
  by (auto simp: isSpace_def toLowerChar_def isUpperLetter_def Let_def)

lemma trim_all_space: "list_all isSpace s \<Longrightarrow> trim s = []"
proof -
  assume "list_all isSpace s"
  then have d: "dropWhile isSpace s = []" by (simp add: list_all_iff)
  show ?thesis unfolding trim_def d by simp
qed

lemma trim_empty_all_space: "trim s = [] \<Longrightarrow> list_all isSpace s"
proof -
  assume "trim s = []"
  then have "dropWhile isSpace (rev (dropWhile isSpace s)) = []" by (simp add: trim_def)
  then have "\<forall>c \<in> set (dropWhile isSpace s). isSpace c" by simp
  then have "dropWhile isSpace s = []"
    by (metis hd_dropWhile list.set_sel(1))
  then show ?thesis by (simp add: list_all_iff)
qed

lemma startsWith_set: "startsWith s k \<Longrightarrow> set k \<subseteq> set s"
  by (induction s k rule: startsWith.induct) auto

lemma includes_str_set: "includes_str s k \<Longrightarrow> set k \<subseteq> set s"
proof (induction s)
  case Nil
  then show ?case by simp
next
  case (Cons c cs)
  from Cons.prems have "startsWith (c # cs) k \<or> includes_str cs k" by simp
  then show ?case
  proof
    assume "startsWith (c # cs) k"
    then show ?thesis by (rule startsWith_set)
  next
    assume "includes_str cs k"
    then have "set k \<subseteq> set cs" by (rule Cons.IH)
    then show ?thesis by auto
  qed
qed

lemma all_space_toLowerCase: "list_all isSpace s \<Longrightarrow> toLowerCase s = s"
  by (induction s) (auto simp: toLowerCase_def isSpace_toLowerChar)

text \<open>A text in which a keyword with a visible character occurs is not blank.\<close>

lemma includes_not_blank:
  assumes "includes_str (toLowerCase s) k" "x \<in> set k" "\<not> isSpace x"
  shows "trim s \<noteq> []"
proof
  assume "trim s = []"
  then have sp: "list_all isSpace s" by (rule trim_empty_all_space)
  then have "toLowerCase s = s" by (rule all_space_toLowerCase)
  with assms(1) have "set k \<subseteq> set s" using includes_str_set by fastforce
  with assms(2) sp have "isSpace x" by (auto simp: list_all_iff)
  with assms(3) show False by simp
qed

lemma educationalTone_words: "list_all (list_ex (\<lambda>x. \<not> isSpace x)) educationalTone"
  by code_simp

lemma educationalTone_not_blank:
  "w \<in> set educationalTone \<Longrightarrow> \<exists>x \<in> set w. \<not> isSpace x"
  using educationalTone_words by (simp add: list_all_iff list_ex_iff)

text \<open>
  C4, as amended. For every string of length at least 50 that contains an
  educational-tone keyword and also contains "explain" or "narrat" (all matched without
  regard to case), \<open>optimizeVoiceScript\<close> appends nothing: it returns the string with
  the whitespace at its two ends trimmed.
\<close>

theorem optimizeVoiceScript_unchanged:
  assumes "length s \<ge> 50"
    and "list_ex (\<lambda>word. includes_str (toLowerCase s) word) educationalTone"
    and "includes_str (toLowerCase s) ''explain'' \<or> includes_str (toLowerCase s) ''narrat''"
  shows "optimizeVoiceScript s = trim s"
proof -
  from assms(2) obtain w where w: "w \<in> set educationalTone" "includes_str (toLowerCase s) w"
    by (auto simp: list_ex_iff)
  from educationalTone_not_blank [OF w(1)] obtain x where "x \<in> set w" "\<not> isSpace x" by blast
  with w(2) have nb: "trim s \<noteq> []" by (rule includes_not_blank)
  have n1: "\<not> (\<not> includes_str (toLowerCase s) ''explain'' \<and>
                \<not> includes_str (toLowerCase s) ''narrat'')"
    using assms(3) by blast
  have n3: "\<not> length s < 50" using assms(1) by simp
  show ?thesis
    unfolding optimizeVoiceScript_def Let_def
    by (simp only: nb n1 n3 assms(2) if_False if_True not_True_eq_False)
qed

theorem optimizeVoiceScript_unchanged_witness:
  "length voiceKept \<ge> 50 \<and>
   list_ex (\<lambda>word. includes_str (toLowerCase voiceKept) word) educationalTone \<and>
   includes_str (toLowerCase voiceKept) ''explain'' \<and>
   optimizeVoiceScript voiceKept = voiceKept"
proof -
  have a: "length voiceKept \<ge> 50" by code_simp
  have b: "list_ex (\<lambda>word. includes_str (toLowerCase voiceKept) word) educationalTone"
    by code_simp
  have c: "includes_str (toLowerCase voiceKept) ''explain''" by code_simp
  have d: "trim voiceKept = voiceKept" by code_simp
  have e: "optimizeVoiceScript voiceKept = trim voiceKept"
    by (rule optimizeVoiceScript_unchanged [OF a b disjI1 [OF c]])
  show ?thesis by (intro conjI a b c) (simp only: e d)
qed

text \<open>
  C4 as stated fails: a narration of 55 characters that contains "learn" but neither
  "explain" nor "narrat" gets the narration clause appended.
\<close>

theorem optimizeVoiceScript_appends_counterexample:
  "length voiceGrown \<ge> 50 \<and>
   includes_str (toLowerCase voiceGrown) ''learn'' \<and>
   optimizeVoiceScript voiceGrown =
     voiceGrown @ '' Include clear narration that explains key concepts.''"
  by code_simp

text \<open>
  C9. For every string that consists of whitespace only (tab, line feed, vertical tab,
  form feed, carriage return, space, no-break space), the empty string included,
  \<open>optimizeImagePrompt\<close>, \<open>optimizeVideoPrompt\<close> and \<open>optimizeVoiceScript\<close> return
  the empty string.
\<close>

theorem optimizers_blank:
  assumes "list_all isSpace s"
  shows "optimizeImagePrompt s = [] \<and> optimizeVideoPrompt s = [] \<and> optimizeVoiceScript s = []"
  using trim_all_space [OF assms]
  by (simp add: optimizeImagePrompt_def optimizeVideoPrompt_def optimizeVoiceScript_def)

theorem optimizers_blank_witness:
  "list_all isSpace blankText \<and>
   optimizeImagePrompt blankText = [] \<and> optimizeVideoPrompt blankText = [] \<and>
   optimizeVoiceScript blankText = [] \<and>
   optimizeImagePrompt [] = [] \<and> optimizeVideoPrompt [] = [] \<and> optimizeVoiceScript [] = []"
proof -
  have a: "list_all isSpace blankText" by (simp add: blankText_def isSpace_def)
  have b: "list_all isSpace []" by simp
  from optimizers_blank [OF a] optimizers_blank [OF b] a show ?thesis by simp
qed

section \<open>Text features\<close>

text \<open>Upper-casing leaves a character as it is unless it is a lowercase letter.\<close>

lemma toUpperCase_fixed: "(units [c] = toUpperCase [c]) = (\<not> isLowerLetter c)"
  by (auto simp: units_def toUpperCase_def toUpperUnits_def isLowerLetter_def Let_def)

text \<open>Lower-casing leaves a character as it is unless it is an uppercase letter.\<close>

lemma toLowerChar_fixed: "(c = toLowerChar c) = (\<not> isUpperLetter c)"
proof (cases "isUpperLetter c")
  case True
  then have r: "(of_char c :: nat) \<le> 222"
    by (auto simp: isUpperLetter_def Let_def)
  have "(of_char (char_of ((of_char c :: nat) + 32)) :: nat) = ((of_char c :: nat) + 32) mod 256"
    by (rule of_char_of)
  with r have "(of_char (char_of ((of_char c :: nat) + 32)) :: nat) = (of_char c :: nat) + 32"
    by simp
  then have ne: "(of_char (char_of ((of_char c :: nat) + 32)) :: nat) \<noteq> (of_char c :: nat)"
    by linarith
  have "char_of ((of_char c :: nat) + 32) \<noteq> c"
  proof
    assume e: "char_of ((of_char c :: nat) + 32) = c"
    have "(of_char (char_of ((of_char c :: nat) + 32)) :: nat) = of_char c" by (simp only: e)
    with ne show False by contradiction
  qed
  with True show ?thesis by (simp add: toLowerChar_def eq_commute)
next
  case False
  then show ?thesis by (simp add: toLowerChar_def)
qed

lemma toLowerCase_fixed: "(cs = toLowerCase cs) = list_all (\<lambda>c. \<not> isUpperLetter c) cs"
  by (induction cs) (simp_all add: toLowerCase_def toLowerChar_fixed)

text \<open>
  C8, as amended. For every input string, \<open>detectProperNouns\<close> returns, in their order
  of occurrence, exactly the whitespace-delimited tokens of length greater than 2 whose
  first character is not a lowercase letter (upper-casing leaves it as it is) and whose
  remaining characters are not uppercase letters (lower-casing leaves them as they are),
  the stopwords The, A, An, This, That left out. A digit or a punctuation mark is
  accepted in either position. Letters are the letters of ASCII and of Latin-1, and
  whitespace includes the no-break space.
\<close>

theorem detectProperNouns_tokens:
  "detectProperNouns text =
     filter (\<lambda>word. length word > 2 \<and> \<not> isLowerLetter (hd word) \<and>
                    list_all (\<lambda>c. \<not> isUpperLetter c) (tl word) \<and>
                    word \<notin> set [''The'', ''A'', ''An'', ''This'', ''That''])
            (split_runs isSpace text)"
  unfolding detectProperNouns_def
  by (rule filter_cong [OF refl])
     (simp add: toUpperCase_fixed toLowerCase_fixed drop_Suc)

text \<open>
  C8 as stated fails: a number and a capitalised word followed by a comma are returned,
  although the first has no uppercase first letter and the second does not end in a
  lowercase letter.
\<close>

theorem detectProperNouns_digits_counterexample:
  "detectProperNouns ''Marie, born 1867'' = [''Marie,'', ''1867''] \<and>
   specProperNouns ''Marie, born 1867'' = []"
  by code_simp

text \<open>
  C5 fails on the code. At the input " Cells divide." (with a space in front) the text
  has one sentence and two words with four vowels in all, so the claim's syllable count
  is 4 and its value the double 35.60500000000002; the code counts the empty piece in
  front of the first space as one more syllable and returns the double
  -6.694999999999993. Both doubles are given by their exact fractions.
\<close>

theorem readability_syllables_diverge:
  "fkSentences '' Cells divide.'' = 1 \<and> fkWords '' Cells divide.'' = 2 \<and>
   fkSyllables '' Cells divide.'' = 5 \<and> specSyllables '' Cells divide.'' = 4 \<and>
   calculateFleschKincaid '' Cells divide.'' = - (117779685567365 / 17592186044416) \<and>
   specReadability '' Cells divide.'' = 78296223013929 / 2199023255552"
  by code_simp

section \<open>The scene collection\<close>

lemma filter_other_ids:
  "sceneId \<notin> scene_id ` set ss \<Longrightarrow> filter (\<lambda>s. scene_id s \<noteq> sceneId) ss = ss"
  by (induction ss) auto

lemma filter_drops_at_most_one:
  "distinct (map scene_id scenes) \<Longrightarrow>
   length scenes \<le> Suc (length (filter (\<lambda>s. scene_id s \<noteq> sceneId) scenes))"
  by (induction scenes) (auto simp: filter_other_ids)

lemma length_renumber: "length (renumber ss) = length ss"
  by (simp add: renumber_def)

text \<open>
  C6, as amended. On a collection of exactly one scene \<open>removeScene\<close> is refused,
  whatever the id, and the collection is returned as it was. After a call of
  \<open>removeScene\<close> the collection holds at least one scene exactly when it was not empty
  before and either held one scene or holds a scene with another id than the removed
  one; so it does whenever it was not empty and its ids are unique.
\<close>

theorem removeScene_remaining:
  "(length scenes = 1 \<longrightarrow> removeScene sceneId scenes = (CannotRemove, scenes)) \<and>
   ((snd (removeScene sceneId scenes) \<noteq> []) =
      (scenes \<noteq> [] \<and> (length scenes = 1 \<or> list_ex (\<lambda>s. scene_id s \<noteq> sceneId) scenes))) \<and>
   (scenes \<noteq> [] \<and> distinct (map scene_id scenes) \<longrightarrow> snd (removeScene sceneId scenes) \<noteq> [])"
proof (intro conjI impI)
  assume "length scenes = 1"
  then show "removeScene sceneId scenes = (CannotRemove, scenes)"
    by (simp add: removeScene_def)
next
  show "(snd (removeScene sceneId scenes) \<noteq> []) =
      (scenes \<noteq> [] \<and> (length scenes = 1 \<or> list_ex (\<lambda>s. scene_id s \<noteq> sceneId) scenes))"
  proof (cases "length scenes \<le> 1")
    case True
    then have "scenes = [] \<or> length scenes = 1" by (cases scenes) auto
    with True show ?thesis by (auto simp: removeScene_def)
  next
    case False
    then have "scenes \<noteq> []" "length scenes \<noteq> 1" by auto
    moreover have "(renumber (filter (\<lambda>s. scene_id s \<noteq> sceneId) scenes) \<noteq> []) =
        list_ex (\<lambda>s. scene_id s \<noteq> sceneId) scenes"
      by (simp add: renumber_def enumerate_eq_zip filter_empty_conv list_ex_iff)
    ultimately show ?thesis using False by (simp add: removeScene_def)
  qed
next
  assume a: "scenes \<noteq> [] \<and> distinct (map scene_id scenes)"
  show "snd (removeScene sceneId scenes) \<noteq> []"
  proof (cases "length scenes \<le> 1")
    case True
    with a show ?thesis by (simp add: removeScene_def)
  next
    case False
    from a have "length scenes \<le> Suc (length (filter (\<lambda>s. scene_id s \<noteq> sceneId) scenes))"
      by (simp add: filter_drops_at_most_one)
    with False have "length (renumber (filter (\<lambda>s. scene_id s \<noteq> sceneId) scenes)) \<ge> 1"
      unfolding length_renumber by linarith
    then have "renumber (filter (\<lambda>s. scene_id s \<noteq> sceneId) scenes) \<noteq> []" by auto
    with False show ?thesis by (simp add: removeScene_def)
  qed
qed

theorem removeScene_remaining_witness:
  "length [sceneEmpty] = 1 \<and>
   removeScene ''2'' [sceneEmpty] = (CannotRemove, [sceneEmpty]) \<and>
   [scenePlain, sceneEmpty] \<noteq> [] \<and> distinct (map scene_id [scenePlain, sceneEmpty]) \<and>
   list_ex (\<lambda>s. scene_id s \<noteq> ''2'') [scenePlain, sceneEmpty] \<and>
   snd (removeScene ''2'' [scenePlain, sceneEmpty]) \<noteq> []"
proof -
  have d: "distinct (map scene_id [scenePlain, sceneEmpty])"
    by (simp add: scenePlain_def sceneEmpty_def)
  have e: "list_ex (\<lambda>s. scene_id s \<noteq> ''2'') [scenePlain, sceneEmpty]"
    by (simp add: scenePlain_def)
  from removeScene_remaining [of "[sceneEmpty]" "''2''"]
    removeScene_remaining [of "[scenePlain, sceneEmpty]" "''2''"] d e
  show ?thesis by simp
qed

text \<open>
  C6 as stated fails: when the two scenes of a collection carry the same id, removing
  that id is not refused and leaves no scene at all.
\<close>

theorem removeScene_twins_counterexample:
  "length [sceneTwinA, sceneTwinB] = 2 \<and>
   removeScene ''7'' [sceneTwinA, sceneTwinB] = (SceneRemoved, [])"
  by code_simp

text \<open>
  C10. When no scene of the collection has an analysis, \<open>getOverallAnalysis\<close> returns
  no result (null): no mean is computed and nothing is divided by zero.
\<close>

theorem getOverallAnalysis_absent:
  assumes "list_all (\<lambda>s. analysis s = None) scenes"
  shows "getOverallAnalysis scenes = None"
proof -
  from assms have "filter (\<lambda>s. analysis s \<noteq> None) scenes = []"
    by (simp add: filter_empty_conv list_all_iff)
  then show ?thesis by (simp add: getOverallAnalysis_def)
qed

theorem getOverallAnalysis_absent_witness:
  "list_all (\<lambda>s. analysis s = None) [scenePlain, sceneEmpty] \<and>
   getOverallAnalysis [scenePlain, sceneEmpty] = None"
proof -
  have a: "list_all (\<lambda>s. analysis s = None) [scenePlain, sceneEmpty]"
    by (simp add: scenePlain_def sceneEmpty_def)
  from getOverallAnalysis_absent [OF a] a show ?thesis by simp
qed

section \<open>CSV export and import\<close>

lemma length_importLines: "length (importLines now i ls) = length ls"
  by (induction ls arbitrary: i) simp_all

text \<open>
  C7, as amended. Every line of the file that is not blank, the header line apart,
  becomes one imported scene, also when its two text fields are empty: the number of
  imported scenes is the number of non-blank lines after the header. Only blank lines
  are left out.
\<close>

theorem handleCSVImport_counts_lines:
  assumes "handleCSVImport now csv = Inr scenes"
  shows "length scenes = length (tl (csvLines csv))"
  using assms
  by (auto simp: handleCSVImport_def Let_def length_importLines split: list.splits if_splits)

theorem handleCSVImport_counts_lines_witness:
  "handleCSVImport 1000 csvEmptyRow =
     Inr [\<lparr>scene_id = ''1001'', scene_order = 1, image_prompt = [], narration_script = [],
           analysis = None\<rparr>] \<and>
   length (tl (csvLines csvEmptyRow)) = 1"
proof -
  have e: "handleCSVImport 1000 csvEmptyRow =
     Inr [\<lparr>scene_id = ''1001'', scene_order = 1, image_prompt = [], narration_script = [],
           analysis = None\<rparr>]"
    by code_simp
  from handleCSVImport_counts_lines [OF e] e show ?thesis by simp
qed

text \<open>
  C7 as stated fails: the row "1,," has two empty text fields and is imported as a
  scene with an empty image prompt and an empty narration.
\<close>

theorem import_keeps_empty_row_counterexample:
  "map_sum id (map triple) (handleCSVImport 1000 csvEmptyRow) = Inr [(1, [], [])]"
  by code_simp

lemma split_on_no_sep: "c \<notin> set x \<Longrightarrow> split_on c x = [x]"
  by (induction x) auto

lemma split_on_append: "c \<notin> set x \<Longrightarrow> split_on c (x @ c # rest) = x # split_on c rest"
  by (induction x) auto

lemma split_on_join:
  "\<forall>y \<in> set (x # xs). c \<notin> set y \<Longrightarrow> split_on c (join [c] (x # xs)) = x # xs"
proof (induction xs arbitrary: x)
  case Nil
  then show ?case by (simp add: split_on_no_sep)
next
  case (Cons y ys)
  then show ?case by (simp add: split_on_append)
qed

lemma trim_id: "x \<noteq> [] \<Longrightarrow> \<not> isSpace (hd x) \<Longrightarrow> \<not> isSpace (last x) \<Longrightarrow> trim x = x"
proof -
  assume a: "x \<noteq> []" "\<not> isSpace (hd x)" "\<not> isSpace (last x)"
  then have d1: "dropWhile isSpace x = x" by (cases x) simp_all
  from a have "rev x \<noteq> []" "\<not> isSpace (hd (rev x))" by (simp_all add: hd_rev)
  then have d2: "dropWhile isSpace (rev x) = rev x" by (cases "rev x") simp_all
  show ?thesis unfolding trim_def d1 d2 by simp
qed

lemma stripQuotes_wrapped: "stripQuotes ([dq] @ t @ [dq]) = t"
  by (simp add: stripQuotes_def)

lemma doubleQuotes_id: "dq \<notin> set t \<Longrightarrow> doubleQuotes t = t"
  by (induction t) (auto simp: doubleQuotes_def)

lemma digitChar_cases:
  "d < 10 \<Longrightarrow> d = 0 \<or> d = 1 \<or> d = 2 \<or> d = 3 \<or> d = 4 \<or> d = 5 \<or> d = 6 \<or> d = 7 \<or> d = 8 \<or> d = (9::nat)"
  by arith

lemma digit_table:
  "list_all (\<lambda>d. isDigit (digitChar d) \<and> digitVal (digitChar d) = d) [0, 1, 2, 3, 4, 5, 6, 7, 8, 9]"
  by code_simp

lemma digitChar_props: "d < 10 \<Longrightarrow> isDigit (digitChar d) \<and> digitVal (digitChar d) = d"
  using digit_table digitChar_cases [of d] by (auto simp: list_all_iff)

lemma isDigit_table:
  "list_all (\<lambda>c. digitVal c < 10 \<and> \<not> isSpace c \<and> c \<noteq> CHR '','' \<and> c \<noteq> CHR 0x0A \<and> c \<noteq> dq
       \<and> c \<noteq> CHR ''-'' \<and> c \<noteq> CHR ''+'' \<and> c \<noteq> CHR ''x'' \<and> c \<noteq> CHR ''X'') ''0123456789''"
  by code_simp

lemma isDigit_props:
  "isDigit c \<Longrightarrow> digitVal c < 10 \<and> \<not> isSpace c \<and> c \<noteq> CHR '','' \<and> c \<noteq> CHR 0x0A \<and> c \<noteq> dq
       \<and> c \<noteq> CHR ''-'' \<and> c \<noteq> CHR ''+'' \<and> c \<noteq> CHR ''x'' \<and> c \<noteq> CHR ''X''"
  using isDigit_table unfolding isDigit_def list_all_iff by blast

lemma showNat_digits: "showNat n \<noteq> [] \<and> list_all isDigit (showNat n)"
proof (induction n rule: showNat.induct)
  case (1 n)
  show ?case
  proof (cases "n < 10")
    case True
    then show ?thesis by (subst (1 2) showNat.simps) (simp add: digitChar_props)
  next
    case False
    with 1 show ?thesis by (subst (1 2) showNat.simps) (simp add: digitChar_props)
  qed
qed

lemma showNat_value: "foldl (\<lambda>a c. a * 10 + int (digitVal c)) 0 (showNat n) = int n"
proof (induction n rule: showNat.induct)
  case (1 n)
  show ?case
  proof (cases "n < 10")
    case True
    then show ?thesis by (subst showNat.simps) (simp add: digitChar_props)
  next
    case False
    have dm: "int (n div 10) * 10 + int (n mod 10) = int n"
      by (simp add: zdiv_int zmod_int)
    from False 1 show ?thesis by (subst showNat.simps) (simp add: digitChar_props dm)
  qed
qed

lemma digits_not_hex: "list_all isDigit ds \<Longrightarrow> take 2 ds \<noteq> ''0x'' \<and> take 2 ds \<noteq> ''0X''"
proof (cases ds)
  case Nil
  then show ?thesis by simp
next
  case (Cons c cs)
  assume a: "list_all isDigit ds"
  show ?thesis
  proof (cases cs)
    case Nil
    with Cons show ?thesis by simp
  next
    case (Cons d r)
    with a \<open>ds = c # cs\<close> have "isDigit d" by simp
    then have "d \<noteq> CHR ''x''" "d \<noteq> CHR ''X''" using isDigit_props by blast+
    with Cons \<open>ds = c # cs\<close> show ?thesis by simp
  qed
qed

lemma takeWhile_digits: "list_all isDigit ds \<Longrightarrow> takeWhile (\<lambda>c. digitVal c < 10) ds = ds"
  using isDigit_props by (simp add: takeWhile_eq_all_conv list_all_iff)

lemma parseInt_digits:
  assumes "ds \<noteq> []" "list_all isDigit ds"
  shows "parseInt ds = Some \<lfloor>double (of_int (foldl (\<lambda>a c. a * 10 + int (digitVal c)) 0 ds))\<rfloor>"
proof -
  from assms obtain c cs where ds: "ds = c # cs" by (cases ds) auto
  with assms(2) have "isDigit c" by simp
  then have c: "\<not> isSpace c" "c \<noteq> CHR ''-''" "c \<noteq> CHR ''+''" using isDigit_props by blast+
  have d1: "dropWhile isSpace ds = ds" using c ds by simp
  have h: "hd ds = c" using ds by simp
  show ?thesis
    unfolding parseInt_def Let_def d1
    using assms(1) c digits_not_hex [OF assms(2)]
    by (simp add: h takeWhile_digits [OF assms(2)])
qed

lemma parseInt_minus_digits:
  assumes "ds \<noteq> []" "list_all isDigit ds"
  shows "parseInt (CHR ''-'' # ds) =
           Some (- \<lfloor>double (of_int (foldl (\<lambda>a c. a * 10 + int (digitVal c)) 0 ds))\<rfloor>)"
proof -
  have m: "\<not> isSpace CHR ''-''" by (simp add: isSpace_def)
  show ?thesis
    unfolding parseInt_def Let_def
    using assms(1) m digits_not_hex [OF assms(2)]
    by (simp add: takeWhile_digits [OF assms(2)])
qed

text \<open>A safe integer is read back from its print.\<close>

lemma parseInt_showInt:
  assumes "\<bar>n\<bar> < 2 ^ 53"
  shows "parseInt (showInt n) = Some n"
proof (cases "n < 0")
  case True
  with assms have "double (of_int (int (nat (- n)))) = of_int (int (nat (- n)))"
    by (intro double_of_int) simp
  with True show ?thesis
    using parseInt_minus_digits [of "showNat (nat (- n))"] showNat_digits [of "nat (- n)"]
    by (simp add: showInt_def showNat_value)
next
  case False
  with assms have "double (of_int (int (nat n))) = of_int (int (nat n))"
    by (intro double_of_int) simp
  with False show ?thesis
    using parseInt_digits [of "showNat (nat n)"] showNat_digits [of "nat n"]
    by (simp add: showInt_def showNat_value)
qed

lemma isNumberChar_props:
  "isNumberChar c \<Longrightarrow> \<not> isSpace c \<and> c \<noteq> CHR '','' \<and> c \<noteq> CHR 0x0A \<and> c \<noteq> dq"
  using isDigit_props [of c] by (auto simp: isNumberChar_def isSpace_def dq_def)

lemma showInt_chars: "showInt n \<noteq> [] \<and> list_all isNumberChar (showInt n)"
  using showNat_digits [of "nat n"] showNat_digits [of "nat (- n)"]
  by (auto simp: showInt_def isNumberChar_def list_all_iff)

lemma number_plain:
  assumes "a \<noteq> []" "list_all isNumberChar a"
  shows "trim a = a" "stripQuotes a = a" "CHR '','' \<notin> set a" "CHR 0x0A \<notin> set a"
proof -
  from assms have h: "isNumberChar (hd a)" and l: "isNumberChar (last a)"
    by (simp_all add: list_all_iff)
  from h l show "trim a = a" using assms(1) isNumberChar_props by (intro trim_id) auto
  from assms(1) obtain c cs where a: "a = c # cs" by (cases a) auto
  from h a have "c \<noteq> dq" using isNumberChar_props by auto
  moreover from l have "last a \<noteq> dq" using isNumberChar_props by auto
  ultimately show "stripQuotes a = a" using a by (simp add: stripQuotes_def)
  show "CHR '','' \<notin> set a" "CHR 0x0A \<notin> set a"
    using assms(2) isNumberChar_props by (auto simp: list_all_iff)
qed

lemma quoted_plain: "trim ([dq] @ t @ [dq]) = [dq] @ t @ [dq]"
  by (rule trim_id) (simp_all add: isSpace_def dq_def)

lemma exportLine_safe:
  assumes "safeText (image_prompt s)" "safeText (narration_script s)"
  shows "split_on CHR '','' (exportLine s) =
           [showInt (scene_order s), [dq] @ image_prompt s @ [dq], [dq] @ narration_script s @ [dq]]"
    and "CHR 0x0A \<notin> set (exportLine s)"
    and "trim (exportLine s) \<noteq> []"
proof -
  let ?a = "showInt (scene_order s)"
  let ?b = "[dq] @ image_prompt s @ [dq]"
  let ?c = "[dq] @ narration_script s @ [dq]"
  have na: "?a \<noteq> []" "list_all isNumberChar ?a" using showInt_chars by simp_all
  have e: "exportLine s = join '','' [?a, ?b, ?c]"
    using assms by (simp add: exportLine_def safeText_def doubleQuotes_id)
  have nc: "\<forall>y \<in> set [?a, ?b, ?c]. CHR '','' \<notin> set y"
    using assms number_plain(3) [OF na] by (simp add: safeText_def dq_def)
  show "split_on CHR '','' (exportLine s) = [?a, ?b, ?c]"
    unfolding e using split_on_join [of ?a "[?b, ?c]" "CHR '',''"] nc by simp
  show "CHR 0x0A \<notin> set (exportLine s)"
    unfolding e using assms number_plain(4) [OF na] by (simp add: safeText_def dq_def)
  show "trim (exportLine s) \<noteq> []"
  proof
    assume "trim (exportLine s) = []"
    then have "list_all isSpace (exportLine s)" by (rule trim_empty_all_space)
    then have "list_all isSpace ?a" unfolding e by simp
    with na have "isSpace (hd ?a)" by (simp add: list_all_iff)
    moreover from na have "isNumberChar (hd ?a)" by (simp add: list_all_iff)
    ultimately show False using isNumberChar_props by blast
  qed
qed

lemma importLine_exportLine:
  assumes "safeText (image_prompt s)" "safeText (narration_script s)" "scene_order s \<noteq> 0"
    and "\<bar>scene_order s\<bar> < 2 ^ 53"
  shows "triple (importLine now i (exportLine s)) = triple s"
proof -
  have na: "showInt (scene_order s) \<noteq> []" "list_all isNumberChar (showInt (scene_order s))"
    using showInt_chars by simp_all
  show ?thesis
    unfolding importLine_def Let_def exportLine_safe(1) [OF assms(1,2)]
    using assms(3)
    by (simp add: triple_def fieldAt_def number_plain(1,2) [OF na] quoted_plain
        stripQuotes_wrapped parseInt_showInt [OF assms(4)] del: append.simps)
qed

lemma importLines_export:
  "list_all roundTrips scenes \<Longrightarrow>
   map triple (importLines now i (map exportLine scenes)) = map triple scenes"
  by (induction scenes arbitrary: i) (simp_all add: roundTrips_def importLine_exportLine)

lemma header_line:
  "CHR 0x0A \<notin> set (join '','' csvHeaders) \<and> trim (join '','' csvHeaders) \<noteq> [] \<and>
   map trim (split_on CHR '','' (join '','' csvHeaders)) = csvHeaders"
  by code_simp

lemma csvLines_export:
  assumes "list_all roundTrips scenes"
  shows "csvLines (exportToCSV scenes) = join '','' csvHeaders # map exportLine scenes"
proof -
  let ?ls = "join '','' csvHeaders # map exportLine scenes"
  have nl: "\<forall>y \<in> set ?ls. CHR 0x0A \<notin> set y"
    using assms header_line exportLine_safe(2) by (auto simp: list_all_iff roundTrips_def)
  have nb: "\<forall>y \<in> set ?ls. trim y \<noteq> []"
    using assms header_line exportLine_safe(3) by (auto simp: list_all_iff roundTrips_def)
  have "split_on (CHR 0x0A) (exportToCSV scenes) = ?ls"
    unfolding exportToCSV_def using split_on_join [of "join '','' csvHeaders" "map exportLine scenes" "CHR 0x0A"] nl
    by simp
  then show ?thesis unfolding csvLines_def using nb by (simp add: filter_id_conv)
qed

text \<open>
  The round trip does hold without those characters: when no text of the collection
  contains a comma, a double quote or a line break and every order is a safe integer
  (below \<open>2^53\<close> in magnitude) other than 0, importing the exported text gives back the
  order and the two texts of every scene.
\<close>

lemma csv_round_trip_plain:
  assumes "list_all roundTrips scenes"
  shows "map_sum id (map triple) (handleCSVImport now (exportToCSV scenes)) = Inr (map triple scenes)"
proof -
  have h: "map trim (split_on CHR '','' (join '','' csvHeaders)) = csvHeaders"
    using header_line by simp
  have m: "''scene_order'' \<in> set csvHeaders" "''image_prompt'' \<in> set csvHeaders"
      "''narration_script'' \<in> set csvHeaders"
    by (simp_all add: csvHeaders_def)
  show ?thesis
    unfolding handleCSVImport_def csvLines_export [OF assms]
    by (simp add: Let_def h m importLines_export [OF assms])
qed

lemma csv_round_trip_plain_example:
  "list_all roundTrips [scenePlain, sceneEmpty] \<and>
   map_sum id (map triple) (handleCSVImport 1000 (exportToCSV [scenePlain, sceneEmpty]))
     = Inr [(1, ''Sun and moon'', ''Stars''), (2, [], [])]"
proof -
  have a: "list_all roundTrips [scenePlain, sceneEmpty]" by code_simp
  have t: "map triple [scenePlain, sceneEmpty] = [(1, ''Sun and moon'', ''Stars''), (2, [], [])]"
    by (simp add: triple_def scenePlain_def sceneEmpty_def)
  from csv_round_trip_plain [OF a, of 1000] a show ?thesis by (simp only: t simp_thms)
qed

text \<open>
  C3 fails on the code. The export wraps a text in double quotes and doubles its quotes,
  but the import cuts every line at every comma and the file at every line break, and
  removes one quote at each end of a field. A comma in the image prompt moves the rest
  of the prompt into the narration; an embedded quote comes back doubled; a line break
  makes two scenes of one. The collection of a plain scene and an empty scene does come
  back.
\<close>

theorem csv_round_trip_fails:
  "map_sum id (map triple) (handleCSVImport 1000 (exportToCSV [sceneComma]))
     = Inr [(1, ''Sun'', ''moon'')] \<and>
   map triple [sceneComma] = [(1, ''Sun, moon'', ''Stars'')] \<and>
   map_sum id (map triple) (handleCSVImport 1000 (exportToCSV [sceneQuote]))
     = Inr [(1, ''say '' @ [dq, dq] @ ''hi'' @ [dq, dq], ''Stars'')] \<and>
   map triple [sceneQuote] = [(1, ''say '' @ [dq] @ ''hi'' @ [dq], ''Stars'')] \<and>
   map_sum id (map triple) (handleCSVImport 1000 (exportToCSV [sceneBreak]))
     = Inr [(1, ''Sun'', []), (2, ''Stars'', [])] \<and>
   map triple [sceneBreak] = [(1, ''Sun'' @ [CHR 0x0A] @ ''moon'', ''Stars'')] \<and>
   map_sum id (map triple) (handleCSVImport 1000 (exportToCSV [scenePlain, sceneEmpty]))
     = Inr (map triple [scenePlain, sceneEmpty])"
  by code_simp

end
